theory Spec2Isabelle
  imports Main
begin

section \<open>The signalling endpoint of run.py\<close>

text \<open>
  The module keeps one dictionary, \<open>pcs_map\<close>, from connection identifiers to
  \<open>SmallWebRTCConnection\<close> objects, and one endpoint, \<open>offer\<close>, that either
  renegotiates a stored connection or builds a new one. Connections are objects shared
  between the dictionary, the background task and the closed-event handler, so the model
  keeps them in a store addressed by references and lets the dictionary hold references.
\<close>

subsection \<open>Request bodies\<close>

text \<open>
  The endpoint takes \<open>request: dict\<close>, the decoded JSON object of the body; the
  framework refuses a body that is not a JSON object before \<open>offer\<close> runs, and the model
  starts where \<open>offer\<close> is called. A field can hold any JSON value. \<open>JNum\<close> holds an integer; line 79 treats a float as it
  treats an integer: falsy when zero, hashable, and never equal to a string key.
\<close>

datatype jval =
    JNull
  | JBool bool
  | JNum int
  | JStr string
  | JList "jval list"
  | JObj "(string \<times> jval) list"

type_synonym request = "string \<rightharpoonup> jval"

text \<open>Python's truth value of a decoded JSON value, as \<open>pc_id and ...\<close> tests it.\<close>

fun truthy :: "jval \<Rightarrow> bool" where
  "truthy JNull = False"
| "truthy (JBool b) = b"
| "truthy (JNum n) = (n \<noteq> 0)"
| "truthy (JStr s) = (s \<noteq> [])"
| "truthy (JList xs) = (xs \<noteq> [])"
| "truthy (JObj kvs) = (kvs \<noteq> [])"

text \<open>\<open>request.get(key, dflt)\<close>.\<close>

definition dict_get :: "request \<Rightarrow> string \<Rightarrow> jval \<Rightarrow> jval" where
  "dict_get request key dflt = (case request key of None \<Rightarrow> dflt | Some v \<Rightarrow> v)"

subsection \<open>Exceptions and the HTTP status\<close>

datatype exn =
    KeyError string
  | TypeError string
  | AssertionError
  | EngineError string

text \<open>
  Modelled from the spec: the answer payload of the connection engine, whose class
  \<open>SmallWebRTCConnection\<close> is imported from the pipecat package and is not part of
  this repository. The spec gives an answer the fields \<open>sdp\<close>, \<open>type\<close> and
  \<open>pc_id\<close>, each a string.
\<close>

record answer =
  ans_sdp :: string
  ans_type :: string
  ans_pc_id :: string

text \<open>
  The application is created as \<open>FastAPI()\<close> and registers no exception handler, and
  \<open>offer\<close> has no \<open>try\<close>: an exception that leaves the endpoint is answered by the
  framework with status 500, a returned value with status 200.
\<close>

definition status_code :: "exn + answer \<Rightarrow> nat" where
  "status_code response = (case response of Inl e \<Rightarrow> 500 | Inr a \<Rightarrow> 200)"

subsection \<open>The connection engine\<close>

text \<open>
  \<open>SmallWebRTCConnection\<close> is an external collaborator, so its operations are a
  parameter of the model; \<open>'c\<close> is the state of one connection object. The
  constructor receives the static ICE configuration and the reference of the object it
  builds. \<open>initialize\<close> and \<open>renegotiate\<close> are awaited calls that mutate the
  object and may raise: they return the exception, if any, and the object as they
  leave it.
\<close>

record 'c engine =
  new_connection :: "string list \<Rightarrow> nat \<Rightarrow> 'c"
  initialize :: "'c \<Rightarrow> jval \<Rightarrow> jval \<Rightarrow> exn option \<times> 'c"
  renegotiate :: "'c \<Rightarrow> jval \<Rightarrow> jval \<Rightarrow> jval \<Rightarrow> exn option \<times> 'c"
  get_answer :: "'c \<Rightarrow> answer"
  pc_id :: "'c \<Rightarrow> string"

definition ice_servers :: "string list" where
  "ice_servers = [''stun:stun.l.google.com:19302'']"

subsection \<open>Module state\<close>

type_synonym ref = nat

text \<open>The only handler the module registers for the closed event.\<close>

datatype handler = Handle_disconnected

text \<open>
  \<open>heap\<close> holds the connection objects, \<open>next_ref\<close> is the reference the next
  constructed object gets. \<open>pcs_map\<close> and \<open>run_example_func\<close> are the module's
  globals. \<open>closed_handlers\<close> lists, per object, the handlers registered for its
  closed event. \<open>background_tasks\<close> collects the calls of \<open>add_task\<close>: the callable
  and the connection it is given.
\<close>

record 'c state =
  heap :: "ref \<Rightarrow> 'c"
  next_ref :: ref
  pcs_map :: "string \<rightharpoonup> ref"
  run_example_func :: "string option"
  closed_handlers :: "ref \<Rightarrow> handler list"
  background_tasks :: "(string \<times> ref) list"

subsection \<open>The endpoint\<close>

text \<open>
  Line 79, \<open>pc_id and pc_id in pcs_map\<close>, together with the lookup of line 80. A
  falsy \<open>pc_id\<close> stops the conjunction. The keys are strings, so a number or a
  boolean is never found; a list or a dict cannot be hashed and the membership test
  raises \<open>TypeError\<close>.
\<close>

definition find_connection :: "jval \<Rightarrow> (string \<rightharpoonup> ref) \<Rightarrow> exn + ref option" where
  "find_connection v m =
     (if \<not> truthy v then Inr None
      else case v of
        JStr s \<Rightarrow> Inr (m s)
      | JList xs \<Rightarrow> Inl (TypeError ''unhashable type: list'')
      | JObj kvs \<Rightarrow> Inl (TypeError ''unhashable type: dict'')
      | _ \<Rightarrow> Inr None)"

text \<open>Lines 98 to 102: read the answer, store the connection under its identifier.\<close>

definition store_answer :: "'c engine \<Rightarrow> ref \<Rightarrow> 'c state \<Rightarrow> (exn + answer) \<times> 'c state" where
  "store_answer eng r st =
     (let answer = get_answer eng (heap st r)
      in (Inr answer, st\<lparr>pcs_map := (pcs_map st)(ans_pc_id answer \<mapsto> r)\<rparr>))"

text \<open>
  \<open>offer\<close>, lines 76 to 102. The arguments of a call are evaluated left to right
  before the call, so a missing \<open>sdp\<close> raises before a missing \<open>type\<close>, and both
  before the engine is entered; in the new-session branch the connection is constructed
  first.
\<close>

definition offer :: "'c engine \<Rightarrow> request \<Rightarrow> 'c state \<Rightarrow> (exn + answer) \<times> 'c state" where
  "offer eng request st =
     (case find_connection (dict_get request ''pc_id'' JNull) (pcs_map st) of
        Inl e \<Rightarrow> (Inl e, st)
      | Inr (Some r) \<Rightarrow>
          (case request ''sdp'' of
             None \<Rightarrow> (Inl (KeyError ''sdp''), st)
           | Some sdp \<Rightarrow>
          (case request ''type'' of
             None \<Rightarrow> (Inl (KeyError ''type''), st)
           | Some ty \<Rightarrow>
          (case renegotiate eng (heap st r) sdp ty (dict_get request ''restart_pc'' (JBool False)) of
             (Some e, c) \<Rightarrow> (Inl e, st\<lparr>heap := (heap st)(r := c)\<rparr>)
           | (None, c) \<Rightarrow> store_answer eng r (st\<lparr>heap := (heap st)(r := c)\<rparr>))))
      | Inr None \<Rightarrow>
          (let r = next_ref st;
               st1 = st\<lparr>heap := (heap st)(r := new_connection eng ice_servers r),
                        next_ref := Suc r\<rparr>
           in
          (case request ''sdp'' of
             None \<Rightarrow> (Inl (KeyError ''sdp''), st1)
           | Some sdp \<Rightarrow>
          (case request ''type'' of
             None \<Rightarrow> (Inl (KeyError ''type''), st1)
           | Some ty \<Rightarrow>
          (case initialize eng (heap st1 r) sdp ty of
             (Some e, c) \<Rightarrow> (Inl e, st1\<lparr>heap := (heap st1)(r := c)\<rparr>)
           | (None, c) \<Rightarrow>
               (let st2 = st1\<lparr>heap := (heap st1)(r := c),
                              closed_handlers :=
                                (closed_handlers st1)(r := closed_handlers st1 r @ [Handle_disconnected])\<rparr>
                in
               (case run_example_func st2 of
                  None \<Rightarrow> (Inl AssertionError, st2)
                | Some f \<Rightarrow>
                    store_answer eng r
                      (st2\<lparr>background_tasks := background_tasks st2 @ [(f, r)]\<rparr>))))))))"

subsection \<open>The closed event\<close>

text \<open>
  \<open>handle_disconnected\<close>, lines 90 to 92: \<open>pcs_map.pop(webrtc_connection.pc_id, None)\<close>.
  The engine calls the handler with the connection that closed.
\<close>

definition handle_disconnected :: "'c engine \<Rightarrow> ref \<Rightarrow> 'c state \<Rightarrow> 'c state" where
  "handle_disconnected eng webrtc_connection st =
     st\<lparr>pcs_map := (pcs_map st)(pc_id eng (heap st webrtc_connection) := None)\<rparr>"

fun run_handler :: "'c engine \<Rightarrow> ref \<Rightarrow> 'c state \<Rightarrow> handler \<Rightarrow> 'c state" where
  "run_handler eng r st Handle_disconnected = handle_disconnected eng r st"

text \<open>A closed notification of connection \<open>r\<close>: every registered handler runs, in order.\<close>

definition closed_event :: "'c engine \<Rightarrow> ref \<Rightarrow> 'c state \<Rightarrow> 'c state" where
  "closed_event eng r st = foldl (run_handler eng r) st (closed_handlers st r)"

subsection \<open>Sequences of requests\<close>

text \<open>Requests handled one after the other; the responses are returned in order.\<close>

fun offers :: "'c engine \<Rightarrow> request list \<Rightarrow> 'c state \<Rightarrow> (exn + answer) list \<times> 'c state" where
  "offers eng [] st = ([], st)"
| "offers eng (request # rest) st =
     (case offer eng request st of
        (response, st') \<Rightarrow>
          (case offers eng rest st' of (responses, st'') \<Rightarrow> (response # responses, st'')))"

subsection \<open>The module as loaded, and a sample engine\<close>

text \<open>
  The module's state when it is loaded: \<open>pcs_map = {}\<close> and no connection object yet.
  \<open>main\<close> sets \<open>run_example_func\<close> before it starts the server; an application
  served without \<open>main\<close> leaves it \<open>None\<close>.
\<close>

definition module_state :: "'c \<Rightarrow> string option \<Rightarrow> 'c state" where
  "module_state c f =
     \<lparr>heap = (\<lambda>r. c), next_ref = 0, pcs_map = Map.empty, run_example_func = f,
      closed_handlers = (\<lambda>r. []), background_tasks = []\<rparr>"

text \<open>
  A sample engine, to evaluate the endpoint on concrete requests. A connection records
  its name and the negotiations it went through; its identifier is its name, which the
  constructor derives from the object's reference; a session description that is not a
  string makes \<open>initialize\<close> and \<open>renegotiate\<close> raise.
\<close>

datatype call = Initialize jval jval | Renegotiate jval jval jval

record conn =
  conn_name :: string
  conn_calls :: "call list"

definition sample_engine :: "(nat \<Rightarrow> string) \<Rightarrow> conn engine" where
  "sample_engine naming =
     \<lparr>new_connection = (\<lambda>ice r. \<lparr>conn_name = naming r, conn_calls = []\<rparr>),
      initialize = (\<lambda>c sdp ty.
        case sdp of
          JStr s \<Rightarrow> (None, c\<lparr>conn_calls := conn_calls c @ [Initialize sdp ty]\<rparr>)
        | _ \<Rightarrow> (Some (EngineError ''invalid sdp''), c)),
      renegotiate = (\<lambda>c sdp ty restart.
        case sdp of
          JStr s \<Rightarrow> (None, c\<lparr>conn_calls := conn_calls c @ [Renegotiate sdp ty restart]\<rparr>)
        | _ \<Rightarrow> (Some (EngineError ''invalid sdp''), c)),
      get_answer = (\<lambda>c. \<lparr>ans_sdp = ''v=0 answer'', ans_type = ''answer'', ans_pc_id = conn_name c\<rparr>),
      pc_id = conn_name\<rparr>"

definition numbered :: "nat \<Rightarrow> string" where
  "numbered n = ''pc'' @ replicate n (CHR ''+'')"

definition unnamed_first :: "nat \<Rightarrow> string" where
  "unnamed_first n = replicate n (CHR ''+'')"

definition no_conn :: conn where
  "no_conn = \<lparr>conn_name = [], conn_calls = []\<rparr>"

definition first_offer :: request where
  "first_offer = [''sdp'' \<mapsto> JStr ''v=0'', ''type'' \<mapsto> JStr ''offer'']"

text \<open>
  Sample requests and states: the module once \<open>main\<close> has set the callable, and the
  state a sample engine reaches from it with \<open>first_offer\<close>, given the name of its first
  connection.
\<close>

definition ghost_offer :: request where
  "ghost_offer =
     [''pc_id'' \<mapsto> JStr ''ghost'', ''sdp'' \<mapsto> JStr ''v=0'', ''type'' \<mapsto> JStr ''offer'']"

definition second_offer :: "string \<Rightarrow> request" where
  "second_offer name =
     [''pc_id'' \<mapsto> JStr name, ''sdp'' \<mapsto> JStr ''v=1'', ''type'' \<mapsto> JStr ''offer'']"

definition restart_offer :: "string \<Rightarrow> request" where
  "restart_offer name =
     [''pc_id'' \<mapsto> JStr name, ''sdp'' \<mapsto> JStr ''v=2'', ''type'' \<mapsto> JStr ''offer'',
      ''restart_pc'' \<mapsto> JBool True]"

definition broken_offer :: request where
  "broken_offer = [''sdp'' \<mapsto> JNull, ''type'' \<mapsto> JStr ''offer'']"

definition broken_renegotiation :: "string \<Rightarrow> request" where
  "broken_renegotiation name =
     [''pc_id'' \<mapsto> JStr name, ''sdp'' \<mapsto> JNull, ''type'' \<mapsto> JStr ''offer'']"

definition served :: "conn state" where
  "served = module_state no_conn (Some ''run_example'')"

definition first_conn :: "string \<Rightarrow> conn" where
  "first_conn name =
     \<lparr>conn_name = name, conn_calls = [Initialize (JStr ''v=0'') (JStr ''offer'')]\<rparr>"

definition first_answer :: "string \<Rightarrow> answer" where
  "first_answer name = \<lparr>ans_sdp = ''v=0 answer'', ans_type = ''answer'', ans_pc_id = name\<rparr>"

definition one_session :: "string \<Rightarrow> conn state" where
  "one_session name =
     \<lparr>heap = (\<lambda>r. no_conn)(0 := first_conn name),
      next_ref = 1,
      pcs_map = [name \<mapsto> 0],
      run_example_func = Some ''run_example'',
      closed_handlers = (\<lambda>r. [])(0 := [Handle_disconnected]),
      background_tasks = [(''run_example'', 0)]\<rparr>"

section \<open>Properties of the endpoint\<close>

subsection \<open>The branches of \<open>offer\<close>\<close>

lemmas sample_defs = served_def module_state_def no_conn_def first_offer_def first_conn_def
  first_answer_def one_session_def sample_engine_def numbered_def ice_servers_def

lemmas offer_eval = offer_def store_answer_def find_connection_def dict_get_def Let_def

lemma find_connection_JStr:
  "find_connection (JStr s) m = (if s = [] then Inr None else Inr (m s))"
  by (simp add: find_connection_def)

lemma find_connection_absent:
  "request ''pc_id'' = None \<Longrightarrow> find_connection (dict_get request ''pc_id'' JNull) m = Inr None"
  by (simp add: find_connection_def dict_get_def)

lemma offer_new_session:
  assumes "find_connection (dict_get request ''pc_id'' JNull) (pcs_map st) = Inr None"
    and "request ''sdp'' = Some x" and "request ''type'' = Some t"
    and "initialize eng (new_connection eng ice_servers (next_ref st)) x t = (None, c)"
    and "run_example_func st = Some f"
  shows "offer eng request st =
     (Inr (get_answer eng c),
      st\<lparr>heap := (heap st)(next_ref st := c),
         next_ref := Suc (next_ref st),
         pcs_map := (pcs_map st)(ans_pc_id (get_answer eng c) \<mapsto> next_ref st),
         closed_handlers := (closed_handlers st)
           (next_ref st := closed_handlers st (next_ref st) @ [Handle_disconnected]),
         background_tasks := background_tasks st @ [(f, next_ref st)]\<rparr>)"
  using assms by (simp add: offer_def store_answer_def Let_def)

lemma offer_renegotiation:
  assumes "find_connection (dict_get request ''pc_id'' JNull) (pcs_map st) = Inr (Some r)"
    and "request ''sdp'' = Some x" and "request ''type'' = Some t"
    and "renegotiate eng (heap st r) x t (dict_get request ''restart_pc'' (JBool False)) = (None, c)"
  shows "offer eng request st =
     (Inr (get_answer eng c),
      st\<lparr>heap := (heap st)(r := c),
         pcs_map := (pcs_map st)(ans_pc_id (get_answer eng c) \<mapsto> r)\<rparr>)"
  using assms by (simp add: offer_def store_answer_def Let_def)

text \<open>
  The request enters \<open>offer\<close> only through the connection it selects and the fields
  \<open>sdp\<close>, \<open>type\<close> and \<open>restart_pc\<close>.
\<close>

lemma offer_branch_only:
  assumes "find_connection (dict_get request ''pc_id'' JNull) (pcs_map st) =
           find_connection (dict_get request' ''pc_id'' JNull) (pcs_map st)"
    and "request ''sdp'' = request' ''sdp''" and "request ''type'' = request' ''type''"
    and "request ''restart_pc'' = request' ''restart_pc''"
  shows "offer eng request st = offer eng request' st"
proof -
  have restart: "dict_get request ''restart_pc'' (JBool False) =
                 dict_get request' ''restart_pc'' (JBool False)"
    using assms(4) by (simp add: dict_get_def)
  show ?thesis
    unfolding offer_def assms(1) assms(2) assms(3) restart by (rule refl)
qed

text \<open>A request that ends in an exception never reaches line 96 or line 100.\<close>

lemma offer_failure_frame:
  assumes "fst (offer eng request st) = Inl e"
  shows "pcs_map (snd (offer eng request st)) = pcs_map st
       \<and> background_tasks (snd (offer eng request st)) = background_tasks st"
  using assms
  by (auto simp: offer_def store_answer_def Let_def split: sum.splits option.splits prod.splits)

lemma offer_missing_field_exception:
  assumes "request ''sdp'' = None \<or> request ''type'' = None"
  shows "fst (offer eng request st) =
           Inl (case find_connection (dict_get request ''pc_id'' JNull) (pcs_map st) of
                  Inl e \<Rightarrow> e
                | Inr found \<Rightarrow>
                    if request ''sdp'' = None then KeyError ''sdp'' else KeyError ''type'')"
  using assms
  by (auto simp: offer_def Let_def split: sum.splits option.splits)

subsection \<open>Malformed requests\<close>

text \<open>
  Claim C3 says that a body without \<open>sdp\<close> or without \<open>type\<close> gets a client-error
  response. \<open>offer\<close> checks no field of the dict it is given: the subscript
  \<open>request["sdp"]\<close> raises \<open>KeyError\<close>, which the framework answers with status 500.
  Here a JSON object that holds only \<open>type\<close> is sent to the module as loaded.
\<close>

theorem offer_missing_sdp_is_500:
  "[''type'' \<mapsto> JStr ''offer''] ''sdp'' = None
   \<and> fst (offer (sample_engine numbered) [''type'' \<mapsto> JStr ''offer'']
        (module_state no_conn (Some ''run_example''))) = Inl (KeyError ''sdp'')
   \<and> status_code (fst (offer (sample_engine numbered) [''type'' \<mapsto> JStr ''offer'']
        (module_state no_conn (Some ''run_example'')))) = 500"
  by (simp add: offer_def find_connection_def dict_get_def status_code_def module_state_def Let_def)

text \<open>
  Claim C3, amended: for every request whose body is a JSON object without \<open>sdp\<close> or
  without \<open>type\<close>, \<open>offer\<close> raises: the \<open>TypeError\<close> of the membership test when
  \<open>pc_id\<close> is a non-empty list or object, else \<open>KeyError\<close> for \<open>sdp\<close> when \<open>sdp\<close>
  is missing, else \<open>KeyError\<close> for \<open>type\<close>. The exception is answered with the server
  error 500; the registry is left as it was and no application task is added.
\<close>

theorem offer_missing_field_server_error:
  assumes "request ''sdp'' = None \<or> request ''type'' = None"
  shows "fst (offer eng request st) =
           Inl (case find_connection (dict_get request ''pc_id'' JNull) (pcs_map st) of
                  Inl e \<Rightarrow> e
                | Inr found \<Rightarrow>
                    if request ''sdp'' = None then KeyError ''sdp'' else KeyError ''type'')
       \<and> status_code (fst (offer eng request st)) = 500
       \<and> pcs_map (snd (offer eng request st)) = pcs_map st
       \<and> background_tasks (snd (offer eng request st)) = background_tasks st"
proof -
  note raised = offer_missing_field_exception [OF assms, of eng st]
  then have "status_code (fst (offer eng request st)) = 500"
    by (simp add: status_code_def)
  with raised offer_failure_frame [OF raised] show ?thesis by simp
qed

theorem offer_missing_field_server_error_witness:
  "([''sdp'' \<mapsto> JStr ''v=0''] ''sdp'' = None \<or> [''sdp'' \<mapsto> JStr ''v=0''] ''type'' = None)
   \<and> fst (offer (sample_engine numbered) [''sdp'' \<mapsto> JStr ''v=0''] served) = Inl (KeyError ''type'')
   \<and> status_code (fst (offer (sample_engine numbered) [''sdp'' \<mapsto> JStr ''v=0''] served)) = 500
   \<and> pcs_map (snd (offer (sample_engine numbered) [''sdp'' \<mapsto> JStr ''v=0''] served)) = pcs_map served
   \<and> background_tasks (snd (offer (sample_engine numbered) [''sdp'' \<mapsto> JStr ''v=0''] served)) =
        background_tasks served"
proof -
  let ?request = "[''sdp'' \<mapsto> JStr ''v=0'']"
  have missing: "?request ''sdp'' = None \<or> ?request ''type'' = None"
    by simp
  have branch: "find_connection (dict_get ?request ''pc_id'' JNull) (pcs_map served) = Inr None"
    by (simp add: find_connection_def dict_get_def)
  note failure = offer_missing_field_server_error [of ?request "sample_engine numbered" served, OF missing]
  from failure have "fst (offer (sample_engine numbered) ?request served) = Inl (KeyError ''type'')"
    by (simp add: branch)
  with failure missing show ?thesis
    by (intro conjI) blast+
qed

subsection \<open>An identifier the registry does not know\<close>

text \<open>
  Claim C1 says that an offer whose \<open>pc_id\<close> is not a key of the registry is rejected
  and changes nothing. The \<open>else\<close> of line 85 takes every request that line 79 does
  not send to renegotiation: the offer below names the unknown connection \<open>ghost\<close>,
  and the module as served answers it with status 200, a new connection, a new registry
  entry and a dispatched task.
\<close>

theorem offer_unknown_pc_id_accepted:
  "ghost_offer ''pc_id'' = Some (JStr ''ghost'')
   \<and> pcs_map served ''ghost'' = None
   \<and> offer (sample_engine numbered) ghost_offer served = (Inr (first_answer ''pc''), one_session ''pc'')
   \<and> status_code (fst (offer (sample_engine numbered) ghost_offer served)) = 200
   \<and> pcs_map (one_session ''pc'') ''pc'' = Some 0
   \<and> next_ref (one_session ''pc'') = Suc (next_ref served)
   \<and> background_tasks (one_session ''pc'') = background_tasks served @ [(''run_example'', 0)]"
  by (simp add: offer_eval status_code_def sample_defs ghost_offer_def)

text \<open>
  Claim C1, amended: for every offer carrying a string \<open>pc_id\<close> that is not a key of
  the registry, \<open>offer\<close> does what it does for the same offer without \<open>pc_id\<close>: it
  takes the new-session branch and constructs a new handle; when \<open>sdp\<close> and \<open>type\<close>
  are present, \<open>initialize\<close> returns and the callable is set, it registers the closed
  handler, dispatches the application task, stores the handle under the answer's
  identifier and returns the answer.
\<close>

theorem offer_unknown_pc_id_new_session:
  assumes "request ''pc_id'' = Some (JStr s)" and "pcs_map st s = None"
  shows "offer eng request st = offer eng (request(''pc_id'' := None)) st
       \<and> next_ref (snd (offer eng request st)) = Suc (next_ref st)
       \<and> (\<forall>x t c f. request ''sdp'' = Some x \<and> request ''type'' = Some t
            \<and> initialize eng (new_connection eng ice_servers (next_ref st)) x t = (None, c)
            \<and> run_example_func st = Some f \<longrightarrow>
           offer eng request st =
             (Inr (get_answer eng c),
              st\<lparr>heap := (heap st)(next_ref st := c),
                 next_ref := Suc (next_ref st),
                 pcs_map := (pcs_map st)(ans_pc_id (get_answer eng c) \<mapsto> next_ref st),
                 closed_handlers := (closed_handlers st)
                   (next_ref st := closed_handlers st (next_ref st) @ [Handle_disconnected]),
                 background_tasks := background_tasks st @ [(f, next_ref st)]\<rparr>))"
proof -
  have branch: "find_connection (dict_get request ''pc_id'' JNull) (pcs_map st) = Inr None"
    using assms by (simp add: dict_get_def find_connection_JStr)
  have "find_connection (dict_get (request(''pc_id'' := None)) ''pc_id'' JNull) (pcs_map st) = Inr None"
    by (simp add: find_connection_absent)
  with branch have same: "offer eng request st = offer eng (request(''pc_id'' := None)) st"
    by (intro offer_branch_only) simp_all
  have constructed: "next_ref (snd (offer eng request st)) = Suc (next_ref st)"
    using branch
    by (simp add: offer_def store_answer_def Let_def split: option.splits prod.splits)
  from same constructed offer_new_session [OF branch] show ?thesis
    by blast
qed

theorem offer_unknown_pc_id_new_session_witness:
  "ghost_offer ''pc_id'' = Some (JStr ''ghost'')
   \<and> pcs_map served ''ghost'' = None
   \<and> ghost_offer ''sdp'' = Some (JStr ''v=0'') \<and> ghost_offer ''type'' = Some (JStr ''offer'')
   \<and> initialize (sample_engine numbered)
        (new_connection (sample_engine numbered) ice_servers (next_ref served))
        (JStr ''v=0'') (JStr ''offer'') = (None, first_conn ''pc'')
   \<and> run_example_func served = Some ''run_example''
   \<and> offer (sample_engine numbered) ghost_offer served =
       offer (sample_engine numbered) (ghost_offer(''pc_id'' := None)) served
   \<and> next_ref (snd (offer (sample_engine numbered) ghost_offer served)) = 1
   \<and> offer (sample_engine numbered) ghost_offer served = (Inr (first_answer ''pc''), one_session ''pc'')"
proof -
  have pc: "ghost_offer ''pc_id'' = Some (JStr ''ghost'')"
    by (simp add: ghost_offer_def)
  have absent: "pcs_map served ''ghost'' = None"
    by (simp add: sample_defs)
  have sdp: "ghost_offer ''sdp'' = Some (JStr ''v=0'')"
    by (simp add: ghost_offer_def)
  have type: "ghost_offer ''type'' = Some (JStr ''offer'')"
    by (simp add: ghost_offer_def)
  have init: "initialize (sample_engine numbered)
        (new_connection (sample_engine numbered) ice_servers (next_ref served))
        (JStr ''v=0'') (JStr ''offer'') = (None, first_conn ''pc'')"
    by (simp add: sample_defs)
  have func: "run_example_func served = Some ''run_example''"
    by (simp add: sample_defs)
  note new = offer_unknown_pc_id_new_session
    [of ghost_offer "''ghost''" served "sample_engine numbered", OF pc absent]
  from new sdp type init func
  have "offer (sample_engine numbered) ghost_offer served =
      (Inr (get_answer (sample_engine numbered) (first_conn ''pc'')),
       served\<lparr>heap := (heap served)(next_ref served := first_conn ''pc''),
         next_ref := Suc (next_ref served),
         pcs_map := (pcs_map served)
           (ans_pc_id (get_answer (sample_engine numbered) (first_conn ''pc'')) \<mapsto> next_ref served),
         closed_handlers := (closed_handlers served)
           (next_ref served := closed_handlers served (next_ref served) @ [Handle_disconnected]),
         background_tasks := background_tasks served @ [(''run_example'', next_ref served)]\<rparr>)"
    by blast
  then have result: "offer (sample_engine numbered) ghost_offer served =
      (Inr (first_answer ''pc''), one_session ''pc'')"
    by (simp add: sample_defs)
  have start: "next_ref served = 0"
    by (simp add: sample_defs)
  from new have same: "offer (sample_engine numbered) ghost_offer served =
       offer (sample_engine numbered) (ghost_offer(''pc_id'' := None)) served"
    by blast
  from new have "next_ref (snd (offer (sample_engine numbered) ghost_offer served)) = Suc (next_ref served)"
    by blast
  then have "next_ref (snd (offer (sample_engine numbered) ghost_offer served)) = 1"
    by (simp only: start One_nat_def)
  with pc absent sdp type init func same result show ?thesis
    by (intro conjI)
qed

subsection \<open>Renegotiation\<close>

lemma offer_renegotiation_frame:
  assumes "request ''pc_id'' = Some (JStr s)" and "s \<noteq> []" and "pcs_map st s = Some r"
  shows "next_ref (snd (offer eng request st)) = next_ref st
       \<and> background_tasks (snd (offer eng request st)) = background_tasks st
       \<and> closed_handlers (snd (offer eng request st)) = closed_handlers st
       \<and> pcs_map (snd (offer eng request st)) s = Some r
       \<and> (\<forall>r'. r' \<noteq> r \<longrightarrow> heap (snd (offer eng request st)) r' = heap st r')"
proof -
  have branch: "find_connection (dict_get request ''pc_id'' JNull) (pcs_map st) = Inr (Some r)"
    using assms by (simp add: dict_get_def find_connection_JStr)
  show ?thesis
    using branch assms(3)
    by (simp add: offer_def store_answer_def Let_def split: prod.splits option.splits)
qed

text \<open>
  Claim C2 says that every offer whose \<open>pc_id\<close> is a key of the registry is a
  renegotiation. Line 79 tests the truth value of \<open>pc_id\<close> before the membership, so
  the empty string never selects a stored connection. With an engine whose first
  connection has the empty identifier, \<open>first_offer\<close> stores that connection under
  \<open>""\<close>; the next offer, carrying \<open>pc_id = ""\<close>, constructs a second connection and
  dispatches a second task.
\<close>

theorem offer_empty_key_not_renegotiated:
  "offer (sample_engine unnamed_first) first_offer served = (Inr (first_answer []), one_session [])
   \<and> pcs_map (one_session []) [] = Some 0
   \<and> second_offer [] ''pc_id'' = Some (JStr [])
   \<and> next_ref (one_session []) = 1
   \<and> next_ref (snd (offer (sample_engine unnamed_first) (second_offer []) (one_session []))) = 2
   \<and> background_tasks (one_session []) = [(''run_example'', 0)]
   \<and> background_tasks (snd (offer (sample_engine unnamed_first) (second_offer []) (one_session [])))
       = [(''run_example'', 0), (''run_example'', 1)]"
  by (simp add: offer_eval sample_defs second_offer_def unnamed_first_def)

text \<open>
  Claim C2, amended: for every offer whose \<open>pc_id\<close> is a non-empty string and a key of
  the registry, \<open>offer\<close> works on the stored handle: it constructs no handle, registers
  no handler and dispatches no task, and the identifier keeps its handle. Hence over any
  sequence of such offers for one identifier no handle is constructed and no application
  task is scheduled, whatever the engine answers and whether or not calls fail.
\<close>

theorem offers_renegotiation_only:
  assumes "\<forall>request \<in> set reqs. request ''pc_id'' = Some (JStr s)"
    and "s \<noteq> []" and "pcs_map st s = Some r"
  shows "next_ref (snd (offers eng reqs st)) = next_ref st
       \<and> background_tasks (snd (offers eng reqs st)) = background_tasks st
       \<and> closed_handlers (snd (offers eng reqs st)) = closed_handlers st
       \<and> pcs_map (snd (offers eng reqs st)) s = Some r
       \<and> (\<forall>r'. r' \<noteq> r \<longrightarrow> heap (snd (offers eng reqs st)) r' = heap st r')"
  using assms
proof (induction reqs arbitrary: st)
  case Nil
  then show ?case by simp
next
  case (Cons request reqs)
  let ?st1 = "snd (offer eng request st)"
  have "request ''pc_id'' = Some (JStr s)"
    using Cons.prems(1) by simp
  note step = offer_renegotiation_frame [of request s st r eng, OF this Cons.prems(2) Cons.prems(3)]
  have rest: "\<forall>request \<in> set reqs. request ''pc_id'' = Some (JStr s)"
    using Cons.prems(1) by simp
  from step have "pcs_map ?st1 s = Some r" by simp
  note tail = Cons.IH [of ?st1, OF rest Cons.prems(2) this]
  have unfold: "snd (offers eng (request # reqs) st) = snd (offers eng reqs ?st1)"
    by (simp split: prod.splits)
  show ?case
    unfolding unfold using step tail by simp
qed

theorem offers_renegotiation_only_witness:
  "second_offer ''pc'' ''pc_id'' = Some (JStr ''pc'')
   \<and> restart_offer ''pc'' ''pc_id'' = Some (JStr ''pc'')
   \<and> ''pc'' \<noteq> [] \<and> pcs_map (one_session ''pc'') ''pc'' = Some 0
   \<and> next_ref (snd (offers (sample_engine numbered)
        [second_offer ''pc'', restart_offer ''pc''] (one_session ''pc''))) = 1
   \<and> background_tasks (snd (offers (sample_engine numbered)
        [second_offer ''pc'', restart_offer ''pc''] (one_session ''pc''))) = [(''run_example'', 0)]
   \<and> pcs_map (snd (offers (sample_engine numbered)
        [second_offer ''pc'', restart_offer ''pc''] (one_session ''pc''))) ''pc'' = Some 0"
proof -
  have second: "second_offer ''pc'' ''pc_id'' = Some (JStr ''pc'')"
    by (simp add: second_offer_def)
  have third: "restart_offer ''pc'' ''pc_id'' = Some (JStr ''pc'')"
    by (simp add: restart_offer_def)
  from second third
  have reqs: "\<forall>request \<in> set [second_offer ''pc'', restart_offer ''pc''].
       request ''pc_id'' = Some (JStr ''pc'')"
    by simp
  have key: "pcs_map (one_session ''pc'') ''pc'' = Some 0"
    by (simp add: one_session_def)
  have name: "''pc'' \<noteq> []" by simp
  have before: "next_ref (one_session ''pc'') = 1
    \<and> background_tasks (one_session ''pc'') = [(''run_example'', 0)]"
    by (simp add: one_session_def)
  note both = offers_renegotiation_only
    [of "[second_offer ''pc'', restart_offer ''pc'']"
        "''pc''" "one_session ''pc''" 0 "sample_engine numbered", OF reqs name key]
  from both before
  have "next_ref (snd (offers (sample_engine numbered)
        [second_offer ''pc'', restart_offer ''pc''] (one_session ''pc''))) = 1
    \<and> background_tasks (snd (offers (sample_engine numbered)
        [second_offer ''pc'', restart_offer ''pc''] (one_session ''pc''))) = [(''run_example'', 0)]
    \<and> pcs_map (snd (offers (sample_engine numbered)
        [second_offer ''pc'', restart_offer ''pc''] (one_session ''pc''))) ''pc'' = Some 0"
    by (simp only:)
  with second third name key show ?thesis
    by (intro conjI) blast+
qed

text \<open>
  Claim C8: on the renegotiation branch the handle's \<open>renegotiate\<close> is entered with the
  request's \<open>sdp\<close>, the request's \<open>type\<close>, and the request's \<open>restart_pc\<close> or,
  without that field, \<open>False\<close>. The handle is left as that call leaves it, no other
  object is touched, and the call's exception, if any, is the endpoint's.
\<close>

theorem offer_renegotiate_arguments:
  assumes "request ''pc_id'' = Some (JStr s)" and "s \<noteq> []" and "pcs_map st s = Some r"
    and "request ''sdp'' = Some x" and "request ''type'' = Some t"
  shows "heap (snd (offer eng request st)) r =
           snd (renegotiate eng (heap st r) x t
                  (case request ''restart_pc'' of None \<Rightarrow> JBool False | Some flag \<Rightarrow> flag))
       \<and> (\<forall>r'. r' \<noteq> r \<longrightarrow> heap (snd (offer eng request st)) r' = heap st r')
       \<and> fst (offer eng request st) =
           (case fst (renegotiate eng (heap st r) x t
                  (case request ''restart_pc'' of None \<Rightarrow> JBool False | Some flag \<Rightarrow> flag)) of
              Some e \<Rightarrow> Inl e
            | None \<Rightarrow> Inr (get_answer eng (heap (snd (offer eng request st)) r)))"
proof -
  have branch: "find_connection (dict_get request ''pc_id'' JNull) (pcs_map st) = Inr (Some r)"
    using assms(1-3) by (simp add: dict_get_def find_connection_JStr)
  have flag: "dict_get request ''restart_pc'' (JBool False) =
      (case request ''restart_pc'' of None \<Rightarrow> JBool False | Some flag \<Rightarrow> flag)"
    by (simp add: dict_get_def)
  show ?thesis
    using assms(4,5) branch
    by (simp add: offer_def store_answer_def Let_def flag split: prod.splits option.splits)
qed

theorem offer_renegotiate_arguments_witness:
  "second_offer ''pc'' ''pc_id'' = Some (JStr ''pc'')
   \<and> ''pc'' \<noteq> [] \<and> pcs_map (one_session ''pc'') ''pc'' = Some 0
   \<and> second_offer ''pc'' ''sdp'' = Some (JStr ''v=1'')
   \<and> second_offer ''pc'' ''type'' = Some (JStr ''offer'')
   \<and> second_offer ''pc'' ''restart_pc'' = None
   \<and> heap (snd (offer (sample_engine numbered) (second_offer ''pc'') (one_session ''pc''))) 0 =
       \<lparr>conn_name = ''pc'',
        conn_calls = [Initialize (JStr ''v=0'') (JStr ''offer''),
                      Renegotiate (JStr ''v=1'') (JStr ''offer'') (JBool False)]\<rparr>
   \<and> fst (offer (sample_engine numbered) (second_offer ''pc'') (one_session ''pc'')) =
       Inr (first_answer ''pc'')"
proof -
  let ?request = "second_offer ''pc''"
  have pc: "?request ''pc_id'' = Some (JStr ''pc'')"
    by (simp add: second_offer_def)
  have name: "''pc'' \<noteq> []" by simp
  have key: "pcs_map (one_session ''pc'') ''pc'' = Some 0"
    by (simp add: one_session_def)
  have sdp: "?request ''sdp'' = Some (JStr ''v=1'')"
    by (simp add: second_offer_def)
  have type: "?request ''type'' = Some (JStr ''offer'')"
    by (simp add: second_offer_def)
  have restart: "?request ''restart_pc'' = None"
    by (simp add: second_offer_def)
  note call = offer_renegotiate_arguments
    [of ?request "''pc''" "one_session ''pc''" 0 "JStr ''v=1''" "JStr ''offer''"
        "sample_engine numbered", OF pc name key sdp type]
  have entered: "renegotiate (sample_engine numbered) (heap (one_session ''pc'') 0)
        (JStr ''v=1'') (JStr ''offer'') (JBool False) =
      (None, \<lparr>conn_name = ''pc'',
        conn_calls = [Initialize (JStr ''v=0'') (JStr ''offer''),
                      Renegotiate (JStr ''v=1'') (JStr ''offer'') (JBool False)]\<rparr>)"
    by (simp add: sample_defs)
  from call have object: "heap (snd (offer (sample_engine numbered) ?request (one_session ''pc''))) 0 =
       \<lparr>conn_name = ''pc'',
        conn_calls = [Initialize (JStr ''v=0'') (JStr ''offer''),
                      Renegotiate (JStr ''v=1'') (JStr ''offer'') (JBool False)]\<rparr>"
    by (simp add: restart entered)
  from call have "fst (offer (sample_engine numbered) ?request (one_session ''pc'')) =
      Inr (get_answer (sample_engine numbered)
             (heap (snd (offer (sample_engine numbered) ?request (one_session ''pc''))) 0))"
    by (simp add: restart entered)
  then have answer: "fst (offer (sample_engine numbered) ?request (one_session ''pc'')) =
      Inr (first_answer ''pc'')"
    unfolding object by (simp add: sample_engine_def first_answer_def)
  from pc name key sdp type restart object answer show ?thesis
    by (intro conjI)
qed

subsection \<open>The answer and the registry\<close>

text \<open>
  Claim C4: whenever \<open>offer\<close> returns an answer, on either branch, the registry of the
  resulting state maps the answer's own \<open>pc_id\<close> to the handle the request worked on
  (the stored one, or the one just constructed), and the answer is the one that handle
  gives; so the returned identifier is a key of the registry when the response is sent.
\<close>

theorem offer_answer_registered:
  assumes "offer eng request st = (Inr a, st')"
  shows "pcs_map st' (ans_pc_id a) =
           Some (case find_connection (dict_get request ''pc_id'' JNull) (pcs_map st) of
                   Inr (Some r) \<Rightarrow> r | _ \<Rightarrow> next_ref st)
       \<and> get_answer eng
           (heap st' (case find_connection (dict_get request ''pc_id'' JNull) (pcs_map st) of
                        Inr (Some r) \<Rightarrow> r | _ \<Rightarrow> next_ref st)) = a
       \<and> ans_pc_id a \<in> dom (pcs_map st')"
  using assms
  by (auto simp: offer_def store_answer_def Let_def split: sum.splits option.splits prod.splits)

theorem offer_answer_registered_witness:
  "(offer (sample_engine numbered) first_offer served = (Inr (first_answer ''pc''), one_session ''pc'')
   \<and> pcs_map (one_session ''pc'') (ans_pc_id (first_answer ''pc'')) = Some 0
   \<and> get_answer (sample_engine numbered) (heap (one_session ''pc'') 0) = first_answer ''pc''
   \<and> ans_pc_id (first_answer ''pc'') \<in> dom (pcs_map (one_session ''pc'')))
   \<and> (offer (sample_engine numbered) (second_offer ''pc'') (one_session ''pc'') =
     (Inr (first_answer ''pc''),
      (one_session ''pc'')\<lparr>heap := (heap (one_session ''pc''))
         (0 := \<lparr>conn_name = ''pc'',
                 conn_calls = [Initialize (JStr ''v=0'') (JStr ''offer''),
                               Renegotiate (JStr ''v=1'') (JStr ''offer'') (JBool False)]\<rparr>)\<rparr>)
   \<and> pcs_map ((one_session ''pc'')\<lparr>heap := (heap (one_session ''pc''))
         (0 := \<lparr>conn_name = ''pc'',
                 conn_calls = [Initialize (JStr ''v=0'') (JStr ''offer''),
                               Renegotiate (JStr ''v=1'') (JStr ''offer'') (JBool False)]\<rparr>)\<rparr>)
        (ans_pc_id (first_answer ''pc'')) = Some 0)"
proof -
  have new_handle:
    "offer (sample_engine numbered) first_offer served = (Inr (first_answer ''pc''), one_session ''pc'')
   \<and> pcs_map (one_session ''pc'') (ans_pc_id (first_answer ''pc'')) = Some 0
   \<and> get_answer (sample_engine numbered) (heap (one_session ''pc'') 0) = first_answer ''pc''
   \<and> ans_pc_id (first_answer ''pc'') \<in> dom (pcs_map (one_session ''pc''))"
  proof -
    have run: "offer (sample_engine numbered) first_offer served =
        (Inr (first_answer ''pc''), one_session ''pc'')"
      by (simp add: offer_eval sample_defs)
    have branch: "find_connection (dict_get first_offer ''pc_id'' JNull) (pcs_map served) = Inr None"
      by (simp add: find_connection_def dict_get_def first_offer_def)
    have start: "next_ref served = 0"
      by (simp add: sample_defs)
    from offer_answer_registered [OF run] run show ?thesis
      by (simp add: branch start)
  qed
  have stored_handle:
    "offer (sample_engine numbered) (second_offer ''pc'') (one_session ''pc'') =
     (Inr (first_answer ''pc''),
      (one_session ''pc'')\<lparr>heap := (heap (one_session ''pc''))
         (0 := \<lparr>conn_name = ''pc'',
                 conn_calls = [Initialize (JStr ''v=0'') (JStr ''offer''),
                               Renegotiate (JStr ''v=1'') (JStr ''offer'') (JBool False)]\<rparr>)\<rparr>)
   \<and> pcs_map ((one_session ''pc'')\<lparr>heap := (heap (one_session ''pc''))
         (0 := \<lparr>conn_name = ''pc'',
                 conn_calls = [Initialize (JStr ''v=0'') (JStr ''offer''),
                               Renegotiate (JStr ''v=1'') (JStr ''offer'') (JBool False)]\<rparr>)\<rparr>)
        (ans_pc_id (first_answer ''pc'')) = Some 0"
  proof -
    let ?st' = "(one_session ''pc'')\<lparr>heap := (heap (one_session ''pc''))
           (0 := \<lparr>conn_name = ''pc'',
                   conn_calls = [Initialize (JStr ''v=0'') (JStr ''offer''),
                                 Renegotiate (JStr ''v=1'') (JStr ''offer'') (JBool False)]\<rparr>)\<rparr>"
    have run: "offer (sample_engine numbered) (second_offer ''pc'') (one_session ''pc'') =
        (Inr (first_answer ''pc''), ?st')"
      by (simp add: offer_eval sample_defs second_offer_def)
    have branch: "find_connection (dict_get (second_offer ''pc'') ''pc_id'' JNull)
        (pcs_map (one_session ''pc'')) = Inr (Some 0)"
      by (simp add: find_connection_def dict_get_def second_offer_def one_session_def)
    from offer_answer_registered [OF run] have "pcs_map ?st' (ans_pc_id (first_answer ''pc'')) = Some 0"
      by (simp only: branch sum.case option.case)
    with run show ?thesis
      by (intro conjI)
  qed
  from new_handle stored_handle show ?thesis
    by (rule conjI)
qed

subsection \<open>Failures of the engine\<close>

text \<open>
  Claim C5: when \<open>sdp\<close> and \<open>type\<close> are present and the engine's operation of the
  branch taken (\<open>renegotiate\<close> on a stored handle, \<open>initialize\<close> on a new one) raises,
  \<open>offer\<close> ends with that exception, answered with status 500; the registry, the
  dispatched tasks and the registered handlers are as before the request, so a handle
  whose \<open>initialize\<close> failed is referenced by none of them.
\<close>

theorem offer_engine_failure:
  assumes "request ''sdp'' = Some x" and "request ''type'' = Some t"
    and "find_connection (dict_get request ''pc_id'' JNull) (pcs_map st) = Inr found"
    and "(case found of
            Some r \<Rightarrow> renegotiate eng (heap st r) x t (dict_get request ''restart_pc'' (JBool False))
          | None \<Rightarrow> initialize eng (new_connection eng ice_servers (next_ref st)) x t) = (Some e, c)"
  shows "fst (offer eng request st) = Inl e
       \<and> status_code (fst (offer eng request st)) = 500
       \<and> pcs_map (snd (offer eng request st)) = pcs_map st
       \<and> background_tasks (snd (offer eng request st)) = background_tasks st
       \<and> closed_handlers (snd (offer eng request st)) = closed_handlers st"
  using assms
  by (cases found) (simp_all add: offer_def status_code_def Let_def)

theorem offer_engine_failure_witness:
  "(broken_offer ''sdp'' = Some JNull
   \<and> broken_offer ''type'' = Some (JStr ''offer'')
   \<and> find_connection (dict_get broken_offer ''pc_id'' JNull) (pcs_map (one_session ''pc'')) = Inr None
   \<and> initialize (sample_engine numbered)
        (new_connection (sample_engine numbered) ice_servers (next_ref (one_session ''pc'')))
        JNull (JStr ''offer'') =
       (Some (EngineError ''invalid sdp''), \<lparr>conn_name = ''pc+'', conn_calls = []\<rparr>)
   \<and> fst (offer (sample_engine numbered) broken_offer (one_session ''pc'')) =
        Inl (EngineError ''invalid sdp'')
   \<and> status_code (fst (offer (sample_engine numbered) broken_offer (one_session ''pc''))) = 500
   \<and> pcs_map (snd (offer (sample_engine numbered) broken_offer (one_session ''pc''))) =
        pcs_map (one_session ''pc'')
   \<and> background_tasks (snd (offer (sample_engine numbered) broken_offer (one_session ''pc''))) =
        background_tasks (one_session ''pc''))
   \<and> (broken_renegotiation ''pc'' ''sdp'' = Some JNull
   \<and> broken_renegotiation ''pc'' ''type'' = Some (JStr ''offer'')
   \<and> find_connection (dict_get (broken_renegotiation ''pc'') ''pc_id'' JNull)
        (pcs_map (one_session ''pc'')) = Inr (Some 0)
   \<and> renegotiate (sample_engine numbered) (heap (one_session ''pc'') 0) JNull (JStr ''offer'')
        (dict_get (broken_renegotiation ''pc'') ''restart_pc'' (JBool False)) =
       (Some (EngineError ''invalid sdp''), first_conn ''pc'')
   \<and> fst (offer (sample_engine numbered) (broken_renegotiation ''pc'') (one_session ''pc'')) =
        Inl (EngineError ''invalid sdp'')
   \<and> status_code (fst (offer (sample_engine numbered) (broken_renegotiation ''pc'') (one_session ''pc''))) = 500
   \<and> pcs_map (snd (offer (sample_engine numbered) (broken_renegotiation ''pc'') (one_session ''pc''))) =
        pcs_map (one_session ''pc'')
   \<and> background_tasks (snd (offer (sample_engine numbered) (broken_renegotiation ''pc'') (one_session ''pc''))) =
        background_tasks (one_session ''pc''))"
proof -
  have new_handle:
    "broken_offer ''sdp'' = Some JNull
   \<and> broken_offer ''type'' = Some (JStr ''offer'')
   \<and> find_connection (dict_get broken_offer ''pc_id'' JNull) (pcs_map (one_session ''pc'')) = Inr None
   \<and> initialize (sample_engine numbered)
        (new_connection (sample_engine numbered) ice_servers (next_ref (one_session ''pc'')))
        JNull (JStr ''offer'') =
       (Some (EngineError ''invalid sdp''), \<lparr>conn_name = ''pc+'', conn_calls = []\<rparr>)
   \<and> fst (offer (sample_engine numbered) broken_offer (one_session ''pc'')) =
        Inl (EngineError ''invalid sdp'')
   \<and> status_code (fst (offer (sample_engine numbered) broken_offer (one_session ''pc''))) = 500
   \<and> pcs_map (snd (offer (sample_engine numbered) broken_offer (one_session ''pc''))) =
        pcs_map (one_session ''pc'')
   \<and> background_tasks (snd (offer (sample_engine numbered) broken_offer (one_session ''pc''))) =
        background_tasks (one_session ''pc'')"
  proof -
    have sdp: "broken_offer ''sdp'' = Some JNull"
      by (simp add: broken_offer_def)
    have type: "broken_offer ''type'' = Some (JStr ''offer'')"
      by (simp add: broken_offer_def)
    have branch: "find_connection (dict_get broken_offer ''pc_id'' JNull) (pcs_map (one_session ''pc'')) = Inr None"
      by (simp add: find_connection_def dict_get_def broken_offer_def)
    have init: "initialize (sample_engine numbered)
          (new_connection (sample_engine numbered) ice_servers (next_ref (one_session ''pc'')))
          JNull (JStr ''offer'') =
         (Some (EngineError ''invalid sdp''), \<lparr>conn_name = ''pc+'', conn_calls = []\<rparr>)"
      by (simp add: sample_defs)
    then have raised: "(case None of
              Some r \<Rightarrow> renegotiate (sample_engine numbered) (heap (one_session ''pc'') r) JNull (JStr ''offer'')
                 (dict_get broken_offer ''restart_pc'' (JBool False))
            | None \<Rightarrow> initialize (sample_engine numbered)
                 (new_connection (sample_engine numbered) ice_servers (next_ref (one_session ''pc'')))
                 JNull (JStr ''offer'')) =
          (Some (EngineError ''invalid sdp''), \<lparr>conn_name = ''pc+'', conn_calls = []\<rparr>)"
      by simp
    note failure = offer_engine_failure
      [of broken_offer JNull "JStr ''offer''" "one_session ''pc''" None "sample_engine numbered"
          "EngineError ''invalid sdp''" "\<lparr>conn_name = ''pc+'', conn_calls = []\<rparr>",
       OF sdp type branch raised]
    from failure sdp type branch init show ?thesis
      by (intro conjI) blast+
  qed
  have stored_handle:
    "broken_renegotiation ''pc'' ''sdp'' = Some JNull
   \<and> broken_renegotiation ''pc'' ''type'' = Some (JStr ''offer'')
   \<and> find_connection (dict_get (broken_renegotiation ''pc'') ''pc_id'' JNull)
        (pcs_map (one_session ''pc'')) = Inr (Some 0)
   \<and> renegotiate (sample_engine numbered) (heap (one_session ''pc'') 0) JNull (JStr ''offer'')
        (dict_get (broken_renegotiation ''pc'') ''restart_pc'' (JBool False)) =
       (Some (EngineError ''invalid sdp''), first_conn ''pc'')
   \<and> fst (offer (sample_engine numbered) (broken_renegotiation ''pc'') (one_session ''pc'')) =
        Inl (EngineError ''invalid sdp'')
   \<and> status_code (fst (offer (sample_engine numbered) (broken_renegotiation ''pc'') (one_session ''pc''))) = 500
   \<and> pcs_map (snd (offer (sample_engine numbered) (broken_renegotiation ''pc'') (one_session ''pc''))) =
        pcs_map (one_session ''pc'')
   \<and> background_tasks (snd (offer (sample_engine numbered) (broken_renegotiation ''pc'') (one_session ''pc''))) =
        background_tasks (one_session ''pc'')"
  proof -
    let ?request = "broken_renegotiation ''pc''"
    let ?eng = "sample_engine numbered"
    have sdp: "?request ''sdp'' = Some JNull"
      by (simp add: broken_renegotiation_def)
    have type: "?request ''type'' = Some (JStr ''offer'')"
      by (simp add: broken_renegotiation_def)
    have branch: "find_connection (dict_get ?request ''pc_id'' JNull) (pcs_map (one_session ''pc'')) =
        Inr (Some 0)"
      by (simp add: find_connection_def dict_get_def broken_renegotiation_def one_session_def)
    have call: "renegotiate ?eng (heap (one_session ''pc'') 0) JNull (JStr ''offer'')
          (dict_get ?request ''restart_pc'' (JBool False)) =
         (Some (EngineError ''invalid sdp''), first_conn ''pc'')"
      by (simp add: sample_defs)
    then have raised: "(case Some 0 of
              Some r \<Rightarrow> renegotiate ?eng (heap (one_session ''pc'') r) JNull (JStr ''offer'')
                 (dict_get ?request ''restart_pc'' (JBool False))
            | None \<Rightarrow> initialize ?eng
                 (new_connection ?eng ice_servers (next_ref (one_session ''pc'')))
                 JNull (JStr ''offer'')) =
          (Some (EngineError ''invalid sdp''), first_conn ''pc'')"
      by simp
    note failure = offer_engine_failure
      [of ?request JNull "JStr ''offer''" "one_session ''pc''" "Some 0" ?eng
          "EngineError ''invalid sdp''" "first_conn ''pc''",
       OF sdp type branch raised]
    from failure sdp type branch call show ?thesis
      by (intro conjI) blast+
  qed
  from new_handle stored_handle show ?thesis
    by (rule conjI)
qed

subsection \<open>The empty identifier\<close>

text \<open>
  Claim C10: an offer whose \<open>pc_id\<close> is the empty string is handled on the new-session
  branch, whatever the registry holds, also under the key \<open>""\<close>: the result is that of
  the same offer without \<open>pc_id\<close>, a handle is constructed and, with \<open>sdp\<close> and
  \<open>type\<close> present, initialized; when \<open>initialize\<close> returns and the callable is set,
  the application task is dispatched for the new handle.
\<close>

theorem offer_empty_pc_id_new_session:
  assumes "request ''pc_id'' = Some (JStr [])"
  shows "offer eng request st = offer eng (request(''pc_id'' := None)) st
       \<and> next_ref (snd (offer eng request st)) = Suc (next_ref st)
       \<and> heap (snd (offer eng request st)) (next_ref st) =
           (case (request ''sdp'', request ''type'') of
              (Some x, Some t) \<Rightarrow> snd (initialize eng (new_connection eng ice_servers (next_ref st)) x t)
            | _ \<Rightarrow> new_connection eng ice_servers (next_ref st))
       \<and> (\<forall>x t c f. request ''sdp'' = Some x \<and> request ''type'' = Some t
            \<and> initialize eng (new_connection eng ice_servers (next_ref st)) x t = (None, c)
            \<and> run_example_func st = Some f \<longrightarrow>
            fst (offer eng request st) = Inr (get_answer eng c)
            \<and> background_tasks (snd (offer eng request st)) = background_tasks st @ [(f, next_ref st)]
            \<and> pcs_map (snd (offer eng request st)) =
                (pcs_map st)(ans_pc_id (get_answer eng c) \<mapsto> next_ref st))"
proof -
  have branch: "find_connection (dict_get request ''pc_id'' JNull) (pcs_map st) = Inr None"
    using assms by (simp add: dict_get_def find_connection_JStr)
  have "find_connection (dict_get (request(''pc_id'' := None)) ''pc_id'' JNull) (pcs_map st) = Inr None"
    by (simp add: find_connection_absent)
  with branch have same: "offer eng request st = offer eng (request(''pc_id'' := None)) st"
    by (intro offer_branch_only) simp_all
  have constructed: "next_ref (snd (offer eng request st)) = Suc (next_ref st)"
    using branch
    by (simp add: offer_def store_answer_def Let_def split: option.splits prod.splits)
  have object: "heap (snd (offer eng request st)) (next_ref st) =
           (case (request ''sdp'', request ''type'') of
              (Some x, Some t) \<Rightarrow> snd (initialize eng (new_connection eng ice_servers (next_ref st)) x t)
            | _ \<Rightarrow> new_connection eng ice_servers (next_ref st))"
    using branch
    by (simp add: offer_def store_answer_def Let_def split: option.splits prod.splits)
  have success: "fst (offer eng request st) = Inr (get_answer eng c)
            \<and> background_tasks (snd (offer eng request st)) = background_tasks st @ [(f, next_ref st)]
            \<and> pcs_map (snd (offer eng request st)) =
                (pcs_map st)(ans_pc_id (get_answer eng c) \<mapsto> next_ref st)"
    if "request ''sdp'' = Some x" "request ''type'' = Some t"
       "initialize eng (new_connection eng ice_servers (next_ref st)) x t = (None, c)"
       "run_example_func st = Some f" for x t c f
    using offer_new_session [OF branch that] by simp
  from same constructed object success show ?thesis
    by blast
qed

theorem offer_empty_pc_id_new_session_witness:
  "second_offer [] ''pc_id'' = Some (JStr [])
   \<and> pcs_map (one_session []) [] = Some 0
   \<and> second_offer [] ''sdp'' = Some (JStr ''v=1'') \<and> second_offer [] ''type'' = Some (JStr ''offer'')
   \<and> initialize (sample_engine unnamed_first)
        (new_connection (sample_engine unnamed_first) ice_servers (next_ref (one_session [])))
        (JStr ''v=1'') (JStr ''offer'') =
       (None, \<lparr>conn_name = ''+'', conn_calls = [Initialize (JStr ''v=1'') (JStr ''offer'')]\<rparr>)
   \<and> run_example_func (one_session []) = Some ''run_example''
   \<and> offer (sample_engine unnamed_first) (second_offer []) (one_session []) =
       offer (sample_engine unnamed_first) ((second_offer [])(''pc_id'' := None)) (one_session [])
   \<and> next_ref (snd (offer (sample_engine unnamed_first) (second_offer []) (one_session []))) = 2
   \<and> fst (offer (sample_engine unnamed_first) (second_offer []) (one_session []))
       = Inr (first_answer ''+'')
   \<and> background_tasks (snd (offer (sample_engine unnamed_first) (second_offer []) (one_session [])))
       = [(''run_example'', 0), (''run_example'', 1)]
   \<and> pcs_map (snd (offer (sample_engine unnamed_first) (second_offer []) (one_session [])))
       = [[] \<mapsto> 0, ''+'' \<mapsto> 1]"
proof -
  let ?request = "second_offer []"
  let ?eng = "sample_engine unnamed_first"
  let ?c = "\<lparr>conn_name = ''+'', conn_calls = [Initialize (JStr ''v=1'') (JStr ''offer'')]\<rparr>"
  have pc: "?request ''pc_id'' = Some (JStr [])"
    by (simp add: second_offer_def)
  have key: "pcs_map (one_session []) [] = Some 0"
    by (simp add: one_session_def)
  note new = offer_empty_pc_id_new_session [of ?request ?eng "one_session []", OF pc]
  have sdp: "?request ''sdp'' = Some (JStr ''v=1'')"
    by (simp add: second_offer_def)
  have type: "?request ''type'' = Some (JStr ''offer'')"
    by (simp add: second_offer_def)
  have init: "initialize ?eng (new_connection ?eng ice_servers (next_ref (one_session [])))
        (JStr ''v=1'') (JStr ''offer'') = (None, ?c)"
    by (simp add: sample_defs unnamed_first_def)
  have func: "run_example_func (one_session []) = Some ''run_example''"
    by (simp add: one_session_def)
  from new sdp type init func
  have success: "fst (offer ?eng ?request (one_session [])) = Inr (get_answer ?eng ?c)
      \<and> background_tasks (snd (offer ?eng ?request (one_session []))) =
          background_tasks (one_session []) @ [(''run_example'', next_ref (one_session []))]
      \<and> pcs_map (snd (offer ?eng ?request (one_session []))) =
          (pcs_map (one_session []))(ans_pc_id (get_answer ?eng ?c) \<mapsto> next_ref (one_session []))"
    by blast
  have answer: "get_answer ?eng ?c = first_answer ''+''"
    by (simp add: sample_engine_def first_answer_def)
  have before: "next_ref (one_session []) = 1
      \<and> background_tasks (one_session []) = [(''run_example'', 0)]
      \<and> pcs_map (one_session []) = [[] \<mapsto> 0]"
    by (simp add: one_session_def)
  from new have same: "offer ?eng ?request (one_session []) =
       offer ?eng (?request(''pc_id'' := None)) (one_session [])"
    by blast
  from new have "next_ref (snd (offer ?eng ?request (one_session []))) = Suc (next_ref (one_session []))"
    by blast
  then have constructed: "next_ref (snd (offer ?eng ?request (one_session []))) = 2"
    by (simp add: before)
  from success have result: "fst (offer ?eng ?request (one_session [])) = Inr (first_answer ''+'')"
    by (simp add: answer)
  from success have tasks: "background_tasks (snd (offer ?eng ?request (one_session []))) =
      [(''run_example'', 0), (''run_example'', 1)]"
    by (simp add: before)
  from success have registry: "pcs_map (snd (offer ?eng ?request (one_session []))) =
      [[] \<mapsto> 0, ''+'' \<mapsto> 1]"
    by (simp add: before answer first_answer_def)
  from pc key sdp type init func same constructed result tasks registry show ?thesis
    by (intro conjI)
qed

subsection \<open>Offers without an identifier\<close>

lemma offers_Cons:
  "offers eng (request # reqs) st =
     (fst (offer eng request st) # fst (offers eng reqs (snd (offer eng request st))),
      snd (offers eng reqs (snd (offer eng request st))))"
  by (simp split: prod.splits)

lemma offer_new_session_success:
  assumes "request ''pc_id'' = None" and "fst (offer eng request st) = Inr a"
  shows "next_ref (snd (offer eng request st)) = Suc (next_ref st)
       \<and> pcs_map (snd (offer eng request st)) = (pcs_map st)(ans_pc_id a \<mapsto> next_ref st)
       \<and> map snd (background_tasks (snd (offer eng request st))) =
           map snd (background_tasks st) @ [next_ref st]"
  using assms
  by (auto simp: offer_def store_answer_def Let_def find_connection_absent
      split: option.splits prod.splits)

lemma offer_absent_constructs:
  assumes "request ''pc_id'' = None"
  shows "next_ref (snd (offer eng request st)) = Suc (next_ref st)"
  using assms
  by (simp add: offer_def store_answer_def Let_def find_connection_absent
      split: option.splits prod.splits)

lemma answered_indices:
  "map (\<lambda>k. n + k) (filter (\<lambda>k. P ((x # xs) ! k)) [0..<Suc (length xs)]) =
     (if P x then [n] else []) @ map (\<lambda>k. Suc n + k) (filter (\<lambda>k. P (xs ! k)) [0..<length xs])"
proof -
  have "[0..<Suc (length xs)] = 0 # map Suc [0..<length xs]"
    by (simp add: upt_conv_Cons map_Suc_upt del: upt_Suc)
  then show ?thesis
    by (simp add: filter_map o_def)
qed

lemma length_offers: "length (fst (offers eng reqs st)) = length reqs"
  by (induction reqs arbitrary: st) (simp_all add: offers_Cons del: offers.simps(2))

text \<open>
  Claim C9 says that every offer without \<open>pc_id\<close> adds an entry, so that the registry
  grows by one per call. An entry is added at line 100 only, and a call that raises
  before it adds none. Below, two offers without \<open>pc_id\<close> are sent three times: the
  well-formed \<open>first_offer\<close> to a module whose callable is unset (the assertion of line
  95 fails), \<open>broken_offer\<close> to the module as served (\<open>initialize\<close> raises), and a
  request without \<open>sdp\<close> (the subscript raises). Each call constructs a handle, so the
  next reference is 2, and the registry stays empty.
\<close>

theorem offers_failing_add_no_entry:
  "first_offer ''pc_id'' = None
   \<and> fst (offers (sample_engine numbered) [first_offer, first_offer] (module_state no_conn None)) =
        [Inl AssertionError, Inl AssertionError]
   \<and> next_ref (snd (offers (sample_engine numbered) [first_offer, first_offer]
        (module_state no_conn None))) = 2
   \<and> pcs_map (snd (offers (sample_engine numbered) [first_offer, first_offer]
        (module_state no_conn None))) = Map.empty
   \<and> broken_offer ''pc_id'' = None
   \<and> fst (offers (sample_engine numbered) [broken_offer, broken_offer] served) =
        [Inl (EngineError ''invalid sdp''), Inl (EngineError ''invalid sdp'')]
   \<and> next_ref (snd (offers (sample_engine numbered) [broken_offer, broken_offer] served)) = 2
   \<and> pcs_map (snd (offers (sample_engine numbered) [broken_offer, broken_offer] served)) = Map.empty
   \<and> [''type'' \<mapsto> JStr ''offer''] ''pc_id'' = None
   \<and> fst (offers (sample_engine numbered)
        [[''type'' \<mapsto> JStr ''offer''], [''type'' \<mapsto> JStr ''offer'']] served) =
        [Inl (KeyError ''sdp''), Inl (KeyError ''sdp'')]
   \<and> next_ref (snd (offers (sample_engine numbered)
        [[''type'' \<mapsto> JStr ''offer''], [''type'' \<mapsto> JStr ''offer'']] served)) = 2
   \<and> pcs_map (snd (offers (sample_engine numbered)
        [[''type'' \<mapsto> JStr ''offer''], [''type'' \<mapsto> JStr ''offer'']] served)) = Map.empty
   \<and> pcs_map served = Map.empty \<and> pcs_map (module_state no_conn None) = Map.empty"
  by (simp add: offer_eval sample_defs broken_offer_def)

text \<open>
  Claim C9, amended: take any sequence of offers without \<open>pc_id\<close> such that the
  identifier of every answer that is returned is not a key of the registry when its call
  starts (the engine gives a new handle an identifier distinct from the live ones). Then
  every call constructs one handle, with the next reference, whether it returns or
  raises; every call that returns an answer dispatches one task for its handle and adds
  one entry, so the registry grows by one per answered call and by nothing for a call
  that raises; the identifier of the \<open>k\<close>-th call's answer is mapped to the \<open>k\<close>-th new
  handle at the end, so the entries are pairwise distinct; and the entries present at
  the start are untouched.
\<close>

theorem offers_without_pc_id:
  assumes "finite (dom (pcs_map st))"
    and "\<forall>k<length reqs. (reqs ! k) ''pc_id'' = None
           \<and> (\<forall>a. fst (offer eng (reqs ! k) (snd (offers eng (take k reqs) st))) = Inr a
                \<longrightarrow> ans_pc_id a \<notin> dom (pcs_map (snd (offers eng (take k reqs) st))))"
  shows "next_ref (snd (offers eng reqs st)) = next_ref st + length reqs
       \<and> map snd (background_tasks (snd (offers eng reqs st))) =
           map snd (background_tasks st) @
           map (\<lambda>k. next_ref st + k)
             (filter (\<lambda>k. \<not> isl (fst (offers eng reqs st) ! k)) [0..<length reqs])
       \<and> card (dom (pcs_map (snd (offers eng reqs st)))) =
           card (dom (pcs_map st)) +
           length (filter (\<lambda>response. \<not> isl response) (fst (offers eng reqs st)))
       \<and> (\<forall>k<length reqs. \<forall>a. fst (offers eng reqs st) ! k = Inr a \<longrightarrow>
             pcs_map (snd (offers eng reqs st)) (ans_pc_id a) = Some (next_ref st + k))
       \<and> (\<forall>key\<in>dom (pcs_map st). pcs_map (snd (offers eng reqs st)) key = pcs_map st key)"
  using assms
proof (induction reqs arbitrary: st)
  case Nil
  then show ?case by simp
next
  case (Cons q qs)
  let ?st1 = "snd (offer eng q st)"
  let ?final = "snd (offers eng qs ?st1)"
  let ?tail = "fst (offers eng qs ?st1)"
  from Cons.prems(2) have "q ''pc_id'' = None
      \<and> (\<forall>a. fst (offer eng q st) = Inr a \<longrightarrow> ans_pc_id a \<notin> dom (pcs_map st))"
    by fastforce
  then have q: "q ''pc_id'' = None"
    and fresh: "\<And>a. fst (offer eng q st) = Inr a \<Longrightarrow> ans_pc_id a \<notin> dom (pcs_map st)"
    by blast+
  note built = offer_absent_constructs [of q eng st, OF q]
  have final: "snd (offers eng (q # qs) st) = ?final"
    and responses: "fst (offers eng (q # qs) st) = fst (offer eng q st) # ?tail"
    by (simp_all add: offers_Cons del: offers.simps)
  have rest: "\<forall>k<length qs. (qs ! k) ''pc_id'' = None
           \<and> (\<forall>a. fst (offer eng (qs ! k) (snd (offers eng (take k qs) ?st1))) = Inr a
                \<longrightarrow> ans_pc_id a \<notin> dom (pcs_map (snd (offers eng (take k qs) ?st1))))"
  proof (intro allI impI)
    fix k
    assume "k < length qs"
    then have "Suc k < length (q # qs)" by simp
    with Cons.prems(2) have "((q # qs) ! Suc k) ''pc_id'' = None
           \<and> (\<forall>a. fst (offer eng ((q # qs) ! Suc k) (snd (offers eng (take (Suc k) (q # qs)) st))) = Inr a
                \<longrightarrow> ans_pc_id a \<notin> dom (pcs_map (snd (offers eng (take (Suc k) (q # qs)) st))))"
      by blast
    then show "(qs ! k) ''pc_id'' = None
           \<and> (\<forall>a. fst (offer eng (qs ! k) (snd (offers eng (take k qs) ?st1))) = Inr a
                \<longrightarrow> ans_pc_id a \<notin> dom (pcs_map (snd (offers eng (take k qs) ?st1))))"
      by (simp add: offers_Cons del: offers.simps)
  qed
  show ?case
  proof (cases "fst (offer eng q st)")
    case (Inl e)
    note frame = offer_failure_frame [OF Inl]
    from frame have reg1: "pcs_map ?st1 = pcs_map st" by simp
    have fin1: "finite (dom (pcs_map ?st1))"
      using Cons.prems(1) by (simp add: reg1)
    note tail = Cons.IH [OF fin1 rest]
    have refs: "next_ref ?final = next_ref st + length (q # qs)"
      using tail built by simp
    have tasks: "map snd (background_tasks ?final) =
        map snd (background_tasks st) @
        map (\<lambda>k. next_ref st + k)
          (filter (\<lambda>k. \<not> isl ((Inl e # ?tail) ! k)) [0..<length (q # qs)])"
    proof -
      have n: "length qs = length ?tail"
        by (simp add: length_offers)
      from tail have "map snd (background_tasks ?final) =
          map snd (background_tasks ?st1) @
          map (\<lambda>k. next_ref ?st1 + k) (filter (\<lambda>k. \<not> isl (?tail ! k)) [0..<length qs])"
        by blast
      then show ?thesis
        using frame built
        by (simp add: n answered_indices [where P = "\<lambda>r. \<not> isl r"] del: upt_Suc)
    qed
    have size: "card (dom (pcs_map ?final)) =
        card (dom (pcs_map st)) + length (filter (\<lambda>response. \<not> isl response) (Inl e # ?tail))"
      using tail by (simp add: reg1)
    have old: "\<forall>key\<in>dom (pcs_map st). pcs_map ?final key = pcs_map st key"
      using tail by (simp add: reg1)
    have entries: "\<forall>k<length (q # qs). \<forall>b. (Inl e # ?tail) ! k = Inr b \<longrightarrow>
        pcs_map ?final (ans_pc_id b) = Some (next_ref st + k)"
    proof (intro allI impI)
      fix k b
      assume k: "k < length (q # qs)" and b: "(Inl e # ?tail) ! k = Inr b"
      then obtain j where j: "k = Suc j" by (cases k) auto
      with k b have "j < length qs" and "?tail ! j = Inr b" by simp_all
      with tail have "pcs_map ?final (ans_pc_id b) = Some (next_ref ?st1 + j)" by blast
      then show "pcs_map ?final (ans_pc_id b) = Some (next_ref st + k)"
        using j built by simp
    qed
    show ?thesis
      unfolding final responses Inl
      using refs tasks size entries old by blast
  next
    case (Inr a)
    note first = offer_new_session_success [OF q Inr]
    from first have reg1: "pcs_map ?st1 = (pcs_map st)(ans_pc_id a \<mapsto> next_ref st)"
      by simp
    have dom1: "dom (pcs_map ?st1) = insert (ans_pc_id a) (dom (pcs_map st))"
      by (simp add: reg1)
    have fin1: "finite (dom (pcs_map ?st1))"
      using Cons.prems(1) by (simp add: dom1)
    have card1: "card (dom (pcs_map ?st1)) = Suc (card (dom (pcs_map st)))"
      using Cons.prems(1) fresh [OF Inr] by (simp add: dom1)
    note tail = Cons.IH [OF fin1 rest]
    have refs: "next_ref ?final = next_ref st + length (q # qs)"
      using tail built by simp
    have tasks: "map snd (background_tasks ?final) =
        map snd (background_tasks st) @
        map (\<lambda>k. next_ref st + k)
          (filter (\<lambda>k. \<not> isl ((Inr a # ?tail) ! k)) [0..<length (q # qs)])"
    proof -
      have n: "length qs = length ?tail"
        by (simp add: length_offers)
      from tail have "map snd (background_tasks ?final) =
          map snd (background_tasks ?st1) @
          map (\<lambda>k. next_ref ?st1 + k) (filter (\<lambda>k. \<not> isl (?tail ! k)) [0..<length qs])"
        by blast
      then show ?thesis
        using first
        by (simp add: n answered_indices [where P = "\<lambda>r. \<not> isl r"] del: upt_Suc)
    qed
    have size: "card (dom (pcs_map ?final)) =
        card (dom (pcs_map st)) + length (filter (\<lambda>response. \<not> isl response) (Inr a # ?tail))"
      using tail card1 by simp
    have old: "\<forall>key\<in>dom (pcs_map st). pcs_map ?final key = pcs_map st key"
    proof
      fix key
      assume key: "key \<in> dom (pcs_map st)"
      then have "key \<in> dom (pcs_map ?st1)" by (simp add: dom1)
      with tail have "pcs_map ?final key = pcs_map ?st1 key" by blast
      also have "\<dots> = pcs_map st key"
        using key fresh [OF Inr] by (auto simp: reg1)
      finally show "pcs_map ?final key = pcs_map st key" .
    qed
    have entries: "\<forall>k<length (q # qs). \<forall>b. (Inr a # ?tail) ! k = Inr b \<longrightarrow>
        pcs_map ?final (ans_pc_id b) = Some (next_ref st + k)"
    proof (intro allI impI)
      fix k b
      assume k: "k < length (q # qs)" and b: "(Inr a # ?tail) ! k = Inr b"
      show "pcs_map ?final (ans_pc_id b) = Some (next_ref st + k)"
      proof (cases k)
        case 0
        with b have "b = a" by simp
        have "ans_pc_id a \<in> dom (pcs_map ?st1)" by (simp add: dom1)
        with tail have "pcs_map ?final (ans_pc_id a) = pcs_map ?st1 (ans_pc_id a)" by blast
        then show ?thesis
          using 0 \<open>b = a\<close> by (simp add: reg1)
      next
        case (Suc j)
        with k b have "j < length qs" and "?tail ! j = Inr b" by simp_all
        with tail have "pcs_map ?final (ans_pc_id b) = Some (next_ref ?st1 + j)" by blast
        then show ?thesis
          using Suc built by simp
      qed
    qed
    show ?thesis
      unfolding final responses Inr
      using refs tasks size entries old by blast
  qed
qed

theorem offers_without_pc_id_witness:
  "finite (dom (pcs_map served))
   \<and> first_offer ''pc_id'' = None \<and> broken_offer ''pc_id'' = None
   \<and> fst (offers (sample_engine numbered) [first_offer, broken_offer, first_offer] served) =
        [Inr (first_answer ''pc''), Inl (EngineError ''invalid sdp''), Inr (first_answer ''pc++'')]
   \<and> ans_pc_id (first_answer ''pc'') \<notin> dom (pcs_map served)
   \<and> ans_pc_id (first_answer ''pc++'') \<notin>
        dom (pcs_map (snd (offers (sample_engine numbered)
          (take 2 [first_offer, broken_offer, first_offer]) served)))
   \<and> next_ref (snd (offers (sample_engine numbered) [first_offer, broken_offer, first_offer] served)) = 3
   \<and> map snd (background_tasks (snd (offers (sample_engine numbered)
        [first_offer, broken_offer, first_offer] served))) = [0, 2]
   \<and> card (dom (pcs_map (snd (offers (sample_engine numbered)
        [first_offer, broken_offer, first_offer] served)))) = 2
   \<and> pcs_map (snd (offers (sample_engine numbered) [first_offer, broken_offer, first_offer] served))
        ''pc'' = Some 0
   \<and> pcs_map (snd (offers (sample_engine numbered) [first_offer, broken_offer, first_offer] served))
        ''pc++'' = Some 2"
proof -
  let ?eng = "sample_engine numbered"
  let ?reqs = "[first_offer, broken_offer, first_offer]"
  let ?final = "snd (offers ?eng ?reqs served)"
  let ?s2 = "snd (offer ?eng broken_offer (one_session ''pc''))"
  have start: "pcs_map served = Map.empty \<and> next_ref served = 0 \<and> background_tasks served = []"
    by (simp add: sample_defs)
  then have fin: "finite (dom (pcs_map served))"
    by simp
  have pc: "first_offer ''pc_id'' = None"
    by (simp add: first_offer_def)
  have pc': "broken_offer ''pc_id'' = None"
    by (simp add: broken_offer_def)
  have step0: "offer ?eng first_offer served = (Inr (first_answer ''pc''), one_session ''pc'')"
    by (simp add: offer_eval sample_defs)
  have step1: "fst (offer ?eng broken_offer (one_session ''pc'')) = Inl (EngineError ''invalid sdp'')"
    by (simp add: offer_eval sample_defs broken_offer_def)
  have reg2: "pcs_map ?s2 = [''pc'' \<mapsto> 0]"
    by (simp add: offer_eval sample_defs broken_offer_def)
  have step2: "fst (offer ?eng first_offer ?s2) = Inr (first_answer ''pc++'')"
    by (simp add: offer_eval sample_defs broken_offer_def)
  have fresh0: "ans_pc_id (first_answer ''pc'') \<notin> dom (pcs_map served)"
    by (simp add: start)
  have state1: "snd (offers ?eng (take 1 ?reqs) served) = one_session ''pc''"
    by (simp add: step0)
  have state2: "snd (offers ?eng (take 2 ?reqs) served) = ?s2"
    by (simp add: offers_Cons step0 del: offers.simps(2))
  have fresh2: "ans_pc_id (first_answer ''pc++'') \<notin> dom (pcs_map (snd (offers ?eng (take 2 ?reqs) served)))"
    by (simp only: state2 reg2) (simp add: first_answer_def)
  have each: "\<forall>k<length ?reqs. (?reqs ! k) ''pc_id'' = None
           \<and> (\<forall>a. fst (offer ?eng (?reqs ! k) (snd (offers ?eng (take k ?reqs) served))) = Inr a
                \<longrightarrow> ans_pc_id a \<notin> dom (pcs_map (snd (offers ?eng (take k ?reqs) served))))"
  proof (intro allI impI)
    fix k
    assume "k < length ?reqs"
    then consider "k = 0" | "k = 1" | "k = 2" by fastforce
    then show "(?reqs ! k) ''pc_id'' = None
           \<and> (\<forall>a. fst (offer ?eng (?reqs ! k) (snd (offers ?eng (take k ?reqs) served))) = Inr a
                \<longrightarrow> ans_pc_id a \<notin> dom (pcs_map (snd (offers ?eng (take k ?reqs) served))))"
    proof cases
      case 1
      with pc step0 fresh0 show ?thesis by simp
    next
      case 2
      have "(?reqs ! 1) ''pc_id'' = None" using pc' by simp
      moreover have "fst (offer ?eng (?reqs ! 1) (snd (offers ?eng (take 1 ?reqs) served))) =
          Inl (EngineError ''invalid sdp'')"
        using step1 by (simp only: state1) simp
      ultimately show ?thesis
        unfolding 2 by simp
    next
      case 3
      have "(?reqs ! 2) ''pc_id'' = None" using pc by simp
      moreover have "fst (offer ?eng (?reqs ! 2) (snd (offers ?eng (take 2 ?reqs) served))) =
          Inr (first_answer ''pc++'')"
        using step2 by (simp only: state2) simp
      ultimately show ?thesis
        unfolding 3 using fresh2 by simp
    qed
  qed
  note run = offers_without_pc_id [OF fin each]
  have responses: "fst (offers ?eng ?reqs served) =
      [Inr (first_answer ''pc''), Inl (EngineError ''invalid sdp''), Inr (first_answer ''pc++'')]"
    by (simp add: offers_Cons step0 step1 step2 del: offers.simps(2))
  from run have refs: "next_ref ?final = 3"
    by (simp add: start del: offers.simps)
  from run have "map snd (background_tasks ?final) =
      map snd (background_tasks served) @
      map (\<lambda>k. next_ref served + k)
        (filter (\<lambda>k. \<not> isl (fst (offers ?eng ?reqs served) ! k)) [0..<length ?reqs])"
    by blast
  then have tasks: "map snd (background_tasks ?final) = [0, 2]"
    by (simp add: responses start del: offers.simps)
  from run have "card (dom (pcs_map ?final)) = card (dom (pcs_map served)) +
      length (filter (\<lambda>response. \<not> isl response) (fst (offers ?eng ?reqs served)))"
    by blast
  then have size: "card (dom (pcs_map ?final)) = 2"
    by (simp add: responses start del: offers.simps)
  from run have entries: "\<forall>k<length ?reqs. \<forall>a. fst (offers ?eng ?reqs served) ! k = Inr a \<longrightarrow>
      pcs_map ?final (ans_pc_id a) = Some (next_ref served + k)"
    by blast
  have "0 < length ?reqs" and "fst (offers ?eng ?reqs served) ! 0 = Inr (first_answer ''pc'')"
    by (simp_all add: responses del: offers.simps)
  with entries have "pcs_map ?final (ans_pc_id (first_answer ''pc'')) = Some (next_ref served + 0)"
    by blast
  then have entry0: "pcs_map ?final ''pc'' = Some 0"
    by (simp add: start first_answer_def del: offers.simps)
  have "2 < length ?reqs" and "fst (offers ?eng ?reqs served) ! 2 = Inr (first_answer ''pc++'')"
    by (simp_all add: responses del: offers.simps)
  with entries have "pcs_map ?final (ans_pc_id (first_answer ''pc++'')) = Some (next_ref served + 2)"
    by blast
  then have entry2: "pcs_map ?final ''pc++'' = Some 2"
    by (simp add: start first_answer_def del: offers.simps)
  from fin pc pc' responses fresh0 fresh2 refs tasks size entry0 entry2 show ?thesis
    by (intro conjI)
qed

subsection \<open>One task per handle\<close>

text \<open>
  The dispatch invariant: a task is added only for the handle constructed by the same
  request, whose reference no earlier task can hold. So from the module as loaded, over
  any sequence of requests, no handle is given to the application callable twice.
\<close>

lemma offer_dispatch_step:
  assumes "\<forall>r \<in> set (map snd (background_tasks st)). r < next_ref st"
    and "distinct (map snd (background_tasks st))"
  shows "(\<forall>r \<in> set (map snd (background_tasks (snd (offer eng request st)))).
            r < next_ref (snd (offer eng request st)))
       \<and> distinct (map snd (background_tasks (snd (offer eng request st))))"
  using assms
  by (auto simp: offer_def store_answer_def Let_def less_Suc_eq
      split: sum.splits option.splits prod.splits)

lemma offers_dispatch_once:
  assumes "\<forall>r \<in> set (map snd (background_tasks st)). r < next_ref st"
    and "distinct (map snd (background_tasks st))"
  shows "(\<forall>r \<in> set (map snd (background_tasks (snd (offers eng reqs st)))).
            r < next_ref (snd (offers eng reqs st)))
       \<and> distinct (map snd (background_tasks (snd (offers eng reqs st))))"
  using assms
proof (induction reqs arbitrary: st)
  case Nil
  then show ?case by simp
next
  case (Cons request reqs)
  note step = offer_dispatch_step [OF Cons.prems, of eng request]
  from step have "\<forall>r \<in> set (map snd (background_tasks (snd (offer eng request st)))).
            r < next_ref (snd (offer eng request st))"
    and "distinct (map snd (background_tasks (snd (offer eng request st))))"
    by blast+
  from Cons.IH [OF this] show ?case
    by (simp add: offers_Cons del: offers.simps)
qed

theorem module_dispatch_once:
  "distinct (map snd (background_tasks (snd (offers eng reqs (module_state c f)))))"
proof -
  have "\<forall>r \<in> set (map snd (background_tasks (module_state c f))). r < next_ref (module_state c f)"
    and "distinct (map snd (background_tasks (module_state c f)))"
    by (simp_all add: module_state_def)
  from offers_dispatch_once [OF this] show ?thesis
    by blast
qed

theorem module_dispatch_once_witness:
  "map snd (background_tasks (snd (offers (sample_engine numbered)
      [first_offer, second_offer ''pc'', first_offer] served))) = [0, 1]
   \<and> distinct (map snd (background_tasks (snd (offers (sample_engine numbered)
      [first_offer, second_offer ''pc'', first_offer] served))))"
proof -
  have "map snd (background_tasks (snd (offers (sample_engine numbered)
      [first_offer, second_offer ''pc'', first_offer] served))) = [0, 1]"
    by (simp add: offer_eval sample_defs second_offer_def)
  with module_dispatch_once [of "sample_engine numbered"
      "[first_offer, second_offer ''pc'', first_offer]" no_conn "Some ''run_example''"]
  show ?thesis
    by (simp only: served_def)
qed

subsection \<open>Closed notifications\<close>

lemma handle_disconnected_twice:
  "handle_disconnected eng r (handle_disconnected eng r st) = handle_disconnected eng r st"
  by (simp add: handle_disconnected_def)

lemma foldl_run_handler:
  "foldl (run_handler eng r) st hs = (if hs = [] then st else handle_disconnected eng r st)"
proof (induction hs arbitrary: st)
  case Nil
  show ?case by simp
next
  case (Cons h hs)
  show ?case
    by (cases h) (simp add: Cons.IH handle_disconnected_twice)
qed

lemma closed_event_eq:
  "closed_event eng r st =
     (if closed_handlers st r = [] then st else handle_disconnected eng r st)"
  by (simp add: closed_event_def foldl_run_handler)

lemma closed_event_repeated:
  "(closed_event eng r ^^ n) st =
     (if n = 0 \<or> closed_handlers st r = [] then st else handle_disconnected eng r st)"
proof (induction n)
  case 0
  show ?case by simp
next
  case (Suc n)
  have kept: "closed_handlers (handle_disconnected eng r st) r = closed_handlers st r"
    by (simp add: handle_disconnected_def)
  have "(closed_event eng r ^^ Suc n) st = closed_event eng r ((closed_event eng r ^^ n) st)"
    by simp
  also have "\<dots> = closed_event eng r
      (if n = 0 \<or> closed_handlers st r = [] then st else handle_disconnected eng r st)"
    by (simp only: Suc.IH)
  also have "\<dots> = (if closed_handlers st r = [] then st else handle_disconnected eng r st)"
    using kept by (simp add: closed_event_eq [of eng r] handle_disconnected_twice)
  finally show ?case by simp
qed

text \<open>
  Claim C6 says that every new-session branch registers the closed handler on the new
  handle. The registration is line 89, after the awaited \<open>initialize\<close> of line 87 and
  the two subscripts in its arguments. Below, \<open>broken_offer\<close> and a request without
  \<open>sdp\<close> both take the new-session branch of the module as served: the handle with
  reference 0 is constructed, the call ends in an exception, and no handler is
  registered on the handle.
\<close>

theorem offer_failed_initialize_no_handler:
  "find_connection (dict_get broken_offer ''pc_id'' JNull) (pcs_map served) = Inr None
   \<and> next_ref served = 0
   \<and> fst (offer (sample_engine numbered) broken_offer served) = Inl (EngineError ''invalid sdp'')
   \<and> next_ref (snd (offer (sample_engine numbered) broken_offer served)) = 1
   \<and> heap (snd (offer (sample_engine numbered) broken_offer served)) 0 =
        \<lparr>conn_name = ''pc'', conn_calls = []\<rparr>
   \<and> closed_handlers (snd (offer (sample_engine numbered) broken_offer served)) 0 = []
   \<and> find_connection (dict_get [''type'' \<mapsto> JStr ''offer''] ''pc_id'' JNull) (pcs_map served) =
        Inr None
   \<and> fst (offer (sample_engine numbered) [''type'' \<mapsto> JStr ''offer''] served) =
        Inl (KeyError ''sdp'')
   \<and> next_ref (snd (offer (sample_engine numbered) [''type'' \<mapsto> JStr ''offer''] served)) = 1
   \<and> closed_handlers (snd (offer (sample_engine numbered) [''type'' \<mapsto> JStr ''offer''] served)) 0
        = []"
  by (simp add: offer_eval sample_defs broken_offer_def)

text \<open>
  Claim C6, amended: on every new-session branch on which \<open>sdp\<close> and \<open>type\<close> are
  present and \<open>initialize\<close> returns, \<open>handle_disconnected\<close> is registered for the
  closed event of the new handle; and in every later state that still has this
  registration, the closed event of the handle removes from the registry the key that
  the handle itself gives as its \<open>pc_id\<close> then, and changes nothing else. The request
  does not enter the removal.
\<close>

theorem offer_registers_closed_handler:
  assumes "find_connection (dict_get request ''pc_id'' JNull) (pcs_map st) = Inr None"
    and "request ''sdp'' = Some x" and "request ''type'' = Some t"
    and "initialize eng (new_connection eng ice_servers (next_ref st)) x t = (None, c)"
  shows "closed_handlers (snd (offer eng request st)) (next_ref st) =
           closed_handlers st (next_ref st) @ [Handle_disconnected]
       \<and> (\<forall>later. closed_handlers later (next_ref st) =
                    closed_handlers (snd (offer eng request st)) (next_ref st) \<longrightarrow>
            closed_event eng (next_ref st) later =
              later\<lparr>pcs_map := (pcs_map later)(pc_id eng (heap later (next_ref st)) := None)\<rparr>)"
proof -
  have registered: "closed_handlers (snd (offer eng request st)) (next_ref st) =
           closed_handlers st (next_ref st) @ [Handle_disconnected]"
    using assms
    by (simp add: offer_def store_answer_def Let_def split: option.splits)
  then show ?thesis
    by (simp add: closed_event_eq handle_disconnected_def)
qed

theorem offer_registers_closed_handler_witness:
  "find_connection (dict_get ghost_offer ''pc_id'' JNull) (pcs_map served) = Inr None
   \<and> ghost_offer ''sdp'' = Some (JStr ''v=0'') \<and> ghost_offer ''type'' = Some (JStr ''offer'')
   \<and> initialize (sample_engine numbered)
        (new_connection (sample_engine numbered) ice_servers (next_ref served))
        (JStr ''v=0'') (JStr ''offer'') = (None, first_conn ''pc'')
   \<and> closed_handlers (snd (offer (sample_engine numbered) ghost_offer served)) 0 = [Handle_disconnected]
   \<and> closed_handlers (one_session ''pc'') 0 =
       closed_handlers (snd (offer (sample_engine numbered) ghost_offer served)) 0
   \<and> closed_event (sample_engine numbered) 0 (one_session ''pc'') =
       (one_session ''pc'')\<lparr>pcs_map := Map.empty\<rparr>"
proof -
  let ?eng = "sample_engine numbered"
  have branch: "find_connection (dict_get ghost_offer ''pc_id'' JNull) (pcs_map served) = Inr None"
    by (simp add: find_connection_def dict_get_def sample_defs ghost_offer_def)
  have sdp: "ghost_offer ''sdp'' = Some (JStr ''v=0'')"
    by (simp add: ghost_offer_def)
  have type: "ghost_offer ''type'' = Some (JStr ''offer'')"
    by (simp add: ghost_offer_def)
  have init: "initialize ?eng (new_connection ?eng ice_servers (next_ref served))
        (JStr ''v=0'') (JStr ''offer'') = (None, first_conn ''pc'')"
    by (simp add: sample_defs)
  have start: "next_ref served = 0 \<and> closed_handlers served 0 = []"
    by (simp add: sample_defs)
  note handler = offer_registers_closed_handler
    [of ghost_offer served "JStr ''v=0''" "JStr ''offer''" ?eng "first_conn ''pc''",
     OF branch sdp type init]
  from handler have registered:
    "closed_handlers (snd (offer ?eng ghost_offer served)) 0 = [Handle_disconnected]"
    by (simp add: start)
  then have later: "closed_handlers (one_session ''pc'') 0 =
       closed_handlers (snd (offer ?eng ghost_offer served)) 0"
    by (simp add: one_session_def)
  with handler have "closed_event ?eng 0 (one_session ''pc'') =
      (one_session ''pc'')\<lparr>pcs_map := (pcs_map (one_session ''pc''))
         (pc_id ?eng (heap (one_session ''pc'') 0) := None)\<rparr>"
    by (simp add: start)
  also have "\<dots> = (one_session ''pc'')\<lparr>pcs_map := Map.empty\<rparr>"
    by (simp add: sample_defs)
  finally have closed: "closed_event ?eng 0 (one_session ''pc'') =
      (one_session ''pc'')\<lparr>pcs_map := Map.empty\<rparr>" .
  from branch sdp type init registered later closed show ?thesis
    by (intro conjI)
qed

text \<open>
  Claim C7: the handler is a total function of the state, so a closed notification
  never raises. Delivered \<open>n\<close> times for one connection, it has the effect of at most
  one run of \<open>handle_disconnected\<close>, which removes the key the connection gives as its
  \<open>pc_id\<close>; a second run changes nothing; no other key leaves the registry and none
  enters; and when that key is absent the state is unchanged.
\<close>

theorem closed_event_idempotent:
  "(closed_event eng r ^^ n) st =
     (if n = 0 \<or> closed_handlers st r = [] then st else handle_disconnected eng r st)
   \<and> pcs_map (handle_disconnected eng r st) = (pcs_map st)(pc_id eng (heap st r) := None)
   \<and> handle_disconnected eng r (handle_disconnected eng r st) = handle_disconnected eng r st
   \<and> dom (pcs_map st) - dom (pcs_map ((closed_event eng r ^^ n) st)) \<subseteq> {pc_id eng (heap st r)}
   \<and> dom (pcs_map ((closed_event eng r ^^ n) st)) \<subseteq> dom (pcs_map st)
   \<and> (pcs_map st (pc_id eng (heap st r)) = None \<longrightarrow> (closed_event eng r ^^ n) st = st)"
proof -
  have removal: "pcs_map (handle_disconnected eng r st) = (pcs_map st)(pc_id eng (heap st r) := None)"
    by (simp add: handle_disconnected_def)
  have absent: "handle_disconnected eng r st = st" if "pcs_map st (pc_id eng (heap st r)) = None"
  proof -
    have "(pcs_map st)(pc_id eng (heap st r) := None) = pcs_map st"
      using that by (simp add: fun_upd_idem)
    then show ?thesis by (simp add: handle_disconnected_def)
  qed
  show ?thesis
    unfolding closed_event_repeated
    using removal absent by (auto simp: handle_disconnected_twice)
qed

theorem closed_event_idempotent_witness:
  "(closed_event (sample_engine numbered) 0 ^^ 3) (one_session ''pc'') =
     handle_disconnected (sample_engine numbered) 0 (one_session ''pc'')
   \<and> pcs_map (handle_disconnected (sample_engine numbered) 0 (one_session ''pc'')) = Map.empty
   \<and> pcs_map ((one_session ''pc'')\<lparr>pcs_map := Map.empty\<rparr>)
        (pc_id (sample_engine numbered) (heap ((one_session ''pc'')\<lparr>pcs_map := Map.empty\<rparr>) 0)) = None
   \<and> (closed_event (sample_engine numbered) 0 ^^ 2) ((one_session ''pc'')\<lparr>pcs_map := Map.empty\<rparr>) =
       (one_session ''pc'')\<lparr>pcs_map := Map.empty\<rparr>"
proof -
  let ?eng = "sample_engine numbered"
  let ?closed = "(one_session ''pc'')\<lparr>pcs_map := Map.empty\<rparr>"
  have registered: "closed_handlers (one_session ''pc'') 0 \<noteq> []"
    by (simp add: one_session_def)
  have name: "pc_id ?eng (heap (one_session ''pc'') 0) = ''pc''"
    by (simp add: sample_defs)
  have registry: "pcs_map (one_session ''pc'') = [''pc'' \<mapsto> 0]"
    by (simp add: one_session_def)
  from closed_event_idempotent [where eng = ?eng and r = 0 and n = 3 and st = "one_session ''pc''"] registered
  have thrice: "(closed_event ?eng 0 ^^ 3) (one_session ''pc'') =
      handle_disconnected ?eng 0 (one_session ''pc'')"
    by simp
  from closed_event_idempotent [where eng = ?eng and r = 0 and n = 3 and st = "one_session ''pc''"]
  have removed: "pcs_map (handle_disconnected ?eng 0 (one_session ''pc'')) = Map.empty"
    by (simp add: name registry)
  have absent: "pcs_map ?closed (pc_id ?eng (heap ?closed 0)) = None"
    by simp
  from closed_event_idempotent [where eng = ?eng and r = 0 and n = 2 and st = ?closed] absent
  have "(closed_event ?eng 0 ^^ 2) ?closed = ?closed"
    by blast
  with thrice removed absent show ?thesis
    by (intro conjI)
qed

end
